theory Spec2Isabelle
  imports
    Main
    "HOL-Library.Char_ord"
    "HOL-Library.List_Lexorder"
    "HOL-Library.Product_Lexorder"
    "HOL-Library.Multiset"
begin

section \<open>The sales dashboard of \<^verbatim>\<open>tutorial.py\<close>\<close>

text \<open>
  The program is one Python module: three SQL statements, and two callbacks
  (\<^verbatim>\<open>timeline\<close> and \<^verbatim>\<open>products\<close>) that run a statement, load the rows
  into a pandas \<^verbatim>\<open>DataFrame\<close>, reshape them and return a figure (a list of traces
  and a layout).

  Modelling decisions.
  \<^item> A point in time (a \<^verbatim>\<open>datetime\<close>, a column \<^verbatim>\<open>dt\<close>, a slider value) is an
    \<open>int\<close>: its position on the time line in a fixed unit. \<^verbatim>\<open>datetime.fromtimestamp\<close>
    is then the identity.
  \<^item> A sales amount (\<^verbatim>\<open>numeric\<close>, a Python \<^verbatim>\<open>Decimal\<close>) is an \<open>int\<close>: the amount in
    its smallest unit, added exactly.
  \<^item> The database is read through the joined relation
    \<^verbatim>\<open>order_facts LEFT JOIN products LEFT JOIN dates LEFT JOIN employees\<close>, given as a
    list of joined rows without NULLs.
  \<^item> A raised Python exception is a value \<open>Inl e\<close> of the result.
  \<^item> Strings are ordered as Python orders them, lexicographically by character code.
\<close>

subsection \<open>Python values\<close>

datatype py_error =
    ValueError
  | KeyError string
  | AttributeError string

text \<open>\<^verbatim>\<open>datetime.fromtimestamp(t)\<close>.\<close>

definition fromtimestamp :: "int \<Rightarrow> int" where
  "fromtimestamp t = t"

text \<open>
  The condition \<^verbatim>\<open>boxes and 'by_country' in boxes\<close> of both callbacks. The value of the
  checklist is \<^verbatim>\<open>None\<close> or a list of strings; \<^verbatim>\<open>None\<close> and the empty list are falsy,
  and then \<^verbatim>\<open>and\<close> does not look at its right operand.
\<close>

definition by_country :: "string list option \<Rightarrow> bool" where
  "by_country boxes =
     (case boxes of
        None \<Rightarrow> False
      | Some bs \<Rightarrow> (if bs = [] then False else ''by_country'' \<in> set bs))"

subsection \<open>Rows\<close>

text \<open>One row of the joined relation (the spec's SalesFact).\<close>

record fact =
  f_dt :: int
  f_country :: string
  f_product_code :: string
  f_product_name :: string
  f_sales_amount :: int

text \<open>One row of \<^verbatim>\<open>timeseries_query\<close>: \<^verbatim>\<open>sales_amount, dt, year, week, country\<close>.\<close>

record ts_row =
  ts_sales_amount :: int
  ts_dt :: int
  ts_year :: int
  ts_week :: int
  ts_country :: string

text \<open>One row of \<^verbatim>\<open>top_products_query\<close>: \<^verbatim>\<open>product_name, sales_amount\<close>.\<close>

record tp_row =
  tp_product_name :: string
  tp_sales_amount :: int

text \<open>One row of the inner table \<^verbatim>\<open>products_per_country\<close>.\<close>

record ppc_row =
  ppc_country :: string
  ppc_product_code :: string
  ppc_product_name :: string
  ppc_sales_amount :: int

text \<open>One row of the table \<^verbatim>\<open>t\<close>: \<^verbatim>\<open>country, product_name, sales_amount, row_number\<close>.\<close>

record t_row =
  t_country :: string
  t_product_name :: string
  t_sales_amount :: int
  t_row_number :: nat

text \<open>One row of \<^verbatim>\<open>top_products_by_country_query\<close>.\<close>

record pc_row =
  pc_country :: string
  pc_product_name :: string
  pc_sales_amount :: int

subsection \<open>The SQL statements\<close>

text \<open>
  \<^verbatim>\<open>GROUP BY\<close>: one group per distinct key, holding the rows of that key. SQL leaves
  the order of the groups open; the model lists them in the order of \<open>remdups\<close>.
\<close>

definition sql_group_by :: "('r \<Rightarrow> 'k) \<Rightarrow> 'r list \<Rightarrow> ('k \<times> 'r list) list" where
  "sql_group_by key rs = map (\<lambda>k. (k, filter (\<lambda>r. key r = k) rs)) (remdups (map key rs))"

text \<open>\<^verbatim>\<open>WHERE dt > :start AND dt < :finish\<close>.\<close>

definition in_window :: "int \<Rightarrow> int \<Rightarrow> fact list \<Rightarrow> fact list" where
  "in_window start finish facts = filter (\<lambda>f. f_dt f > start \<and> f_dt f < finish) facts"

text \<open>
  \<^verbatim>\<open>timeseries_query\<close>: the rows ordered by \<^verbatim>\<open>dt\<close>, grouped by week, year and country,
  with the sum of the amounts and the least \<^verbatim>\<open>dt\<close> of each group.
  \<^verbatim>\<open>extract(year from dt)\<close> and \<^verbatim>\<open>extract(week from dt)\<close> are functions of the
  database, taken as parameters.
\<close>

definition timeseries_query :: "(int \<Rightarrow> int) \<Rightarrow> (int \<Rightarrow> int) \<Rightarrow> fact list \<Rightarrow> ts_row list" where
  "timeseries_query extract_year extract_week facts =
     (let t = sort_key f_dt facts in
      map (\<lambda>((week, year, country), g).
             \<lparr>ts_sales_amount = sum_list (map f_sales_amount g),
              ts_dt = Min (set (map f_dt g)),
              ts_year = year, ts_week = week, ts_country = country\<rparr>)
          (sql_group_by (\<lambda>f. (extract_week (f_dt f), extract_year (f_dt f), f_country f)) t))"

text \<open>
  \<^verbatim>\<open>top_products_query\<close>: window, \<^verbatim>\<open>GROUP BY product_code, product_name\<close>,
  \<^verbatim>\<open>ORDER BY sales_amount DESC\<close> (the summed output column), \<^verbatim>\<open>LIMIT :n\<close>.
  The order of rows with equal sums is the database's; the model sorts stably.
\<close>

definition top_products_query :: "fact list \<Rightarrow> int \<Rightarrow> int \<Rightarrow> nat \<Rightarrow> tp_row list" where
  "top_products_query facts start finish n =
     (let grouped =
            map (\<lambda>((code, pname), g).
                   \<lparr>tp_product_name = pname, tp_sales_amount = sum_list (map f_sales_amount g)\<rparr>)
                (sql_group_by (\<lambda>f. (f_product_code f, f_product_name f))
                   (in_window start finish facts))
      in take n (sort_key (\<lambda>r. - tp_sales_amount r) grouped))"

text \<open>The inner table \<^verbatim>\<open>products_per_country\<close>.\<close>

definition products_per_country :: "fact list \<Rightarrow> int \<Rightarrow> int \<Rightarrow> ppc_row list" where
  "products_per_country facts start finish =
     map (\<lambda>((code, pname, country), g).
            \<lparr>ppc_country = country, ppc_product_code = code, ppc_product_name = pname,
             ppc_sales_amount = sum_list (map f_sales_amount g)\<rparr>)
         (sql_group_by (\<lambda>f. (f_product_code f, f_product_name f, f_country f))
            (in_window start finish facts))"

text \<open>
  The table \<^verbatim>\<open>t\<close>:
  \<^verbatim>\<open>ROW_NUMBER() OVER (PARTITION BY country ORDER BY sales_amount DESC)\<close>.
  Each partition is sorted by descending amount and numbered from 1.
\<close>

definition number_partition :: "ppc_row list \<Rightarrow> t_row list" where
  "number_partition part =
     map (\<lambda>(i, r). \<lparr>t_country = ppc_country r, t_product_name = ppc_product_name r,
                     t_sales_amount = ppc_sales_amount r, t_row_number = i\<rparr>)
         (enumerate 1 (sort_key (\<lambda>r. - ppc_sales_amount r) part))"

definition row_number_over :: "ppc_row list \<Rightarrow> t_row list" where
  "row_number_over rows =
     concat (map (\<lambda>(country, part). number_partition part) (sql_group_by ppc_country rows))"

text \<open>\<^verbatim>\<open>WHERE row_number <= :n\<close>, before the row number is projected away.\<close>

definition ranked_rows :: "fact list \<Rightarrow> int \<Rightarrow> int \<Rightarrow> nat \<Rightarrow> t_row list" where
  "ranked_rows facts start finish n =
     filter (\<lambda>r. t_row_number r \<le> n) (row_number_over (products_per_country facts start finish))"

text \<open>The outer \<^verbatim>\<open>SELECT country, product_name, sales_amount::numeric\<close>.\<close>

definition drop_row_number :: "t_row \<Rightarrow> pc_row" where
  "drop_row_number r =
     \<lparr>pc_country = t_country r, pc_product_name = t_product_name r,
      pc_sales_amount = t_sales_amount r\<rparr>"

definition top_products_by_country_query :: "fact list \<Rightarrow> int \<Rightarrow> int \<Rightarrow> nat \<Rightarrow> pc_row list" where
  "top_products_by_country_query facts start finish n =
     map drop_row_number (ranked_rows facts start finish n)"


subsection \<open>pandas\<close>

text \<open>
  \<^verbatim>\<open>pd.DataFrame(rows)\<close> of a list of dictionaries: the rows with their index labels
  \<open>0, 1, ...\<close>. A frame built from the empty list has no columns at all, so that reading a
  column of it raises.
\<close>

datatype 'r frame = NoColumns | Rows "(nat \<times> 'r) list"

definition DataFrame :: "'r list \<Rightarrow> 'r frame" where
  "DataFrame dat = (if dat = [] then NoColumns else Rows (enumerate 0 dat))"

text \<open>
  \<^verbatim>\<open>df.groupby(key)\<close>, iterated: pandas sorts the group keys (\<^verbatim>\<open>sort=True\<close> is its
  default) and keeps the rows of a group in their order in the frame.
\<close>

definition groupby :: "('r \<Rightarrow> 'k::linorder) \<Rightarrow> (nat \<times> 'r) list \<Rightarrow> ('k \<times> (nat \<times> 'r) list) list" where
  "groupby key df =
     map (\<lambda>k. (k, filter (\<lambda>(i, r). key r = k) df)) (sort (remdups (map (\<lambda>(i, r). key r) df)))"

subsection \<open>Figures\<close>

text \<open>
  The identity of a point (\<^verbatim>\<open>ids\<close>): the index label of its row, or the
  \<^verbatim>\<open>(week, year)\<close> label of an aggregated row.
\<close>

datatype point_id = RowIndex nat | Period int int

record scatter =
  sc_x :: "int list"
  sc_y :: "int list"
  sc_ids :: "point_id list"
  sc_mode :: string
  sc_name :: "string option"

record bar =
  bar_ids :: "nat list"
  bar_x :: "int list"
  bar_y :: "string list"
  bar_orientation :: string
  bar_name :: "string option"

record timeline_figure =
  tf_data :: "scatter list"
  tf_title :: string

record products_figure =
  pf_data :: "bar list"
  pf_title :: string
  pf_yaxis_automargin :: bool
  pf_barmode :: string

subsection \<open>The callback \<^verbatim>\<open>timeline\<close>\<close>

text \<open>
  \<^verbatim>\<open>df = df[(df['dt'] > start) & (df['dt'] < finish)]\<close>;
  the column \<^verbatim>\<open>dt\<close> is missing in a frame without columns.
\<close>

definition filter_window :: "int \<Rightarrow> int \<Rightarrow> ts_row frame \<Rightarrow> py_error + (nat \<times> ts_row) list" where
  "filter_window start finish df =
     (case df of
        NoColumns \<Rightarrow> Inl (KeyError ''dt'')
      | Rows rs \<Rightarrow> Inr (filter (\<lambda>(i, r). ts_dt r > start \<and> ts_dt r < finish) rs))"

text \<open>The branch taken with the country split: one trace for each group of \<^verbatim>\<open>country\<close>.\<close>

definition timeline_by_country :: "(nat \<times> ts_row) list \<Rightarrow> scatter list" where
  "timeline_by_country df =
     map (\<lambda>(country, d).
            \<lparr>sc_x = map (\<lambda>(i, r). ts_dt r) d,
             sc_y = map (\<lambda>(i, r). ts_sales_amount r) d,
             sc_ids = map (\<lambda>(i, r). RowIndex i) d,
             sc_mode = ''markers'',
             sc_name = Some country\<rparr>)
         (groupby ts_country df)"

text \<open>
  The other branch:
  \<^verbatim>\<open>df.groupby(['week', 'year']).agg({'sales_amount': 'sum', 'dt': 'first'})\<close>,
  then one trace over the aggregated frame, whose index is the group key.
\<close>

definition timeline_aggregate :: "(nat \<times> ts_row) list \<Rightarrow> scatter list" where
  "timeline_aggregate df =
     (let agg = map (\<lambda>((week, year), d).
                       (Period week year,
                        sum_list (map (\<lambda>(i, r). ts_sales_amount r) d),
                        ts_dt (snd (hd d))))
                    (groupby (\<lambda>r. (ts_week r, ts_year r)) df)
      in [\<lparr>sc_x = map (\<lambda>(k, total, first). first) agg,
           sc_y = map (\<lambda>(k, total, first). total) agg,
           sc_ids = map (\<lambda>(k, total, first). k) agg,
           sc_mode = ''markers'',
           sc_name = None\<rparr>])"

text \<open>
  The callback. \<open>dat\<close> is what \<^verbatim>\<open>analytics.query(timeseries_query).as_dict()\<close> returned.
  Unpacking \<^verbatim>\<open>start, finish = [...]\<close> raises unless the slider value has two elements.
\<close>

definition timeline :: "ts_row list \<Rightarrow> string list option \<Rightarrow> int list \<Rightarrow> py_error + timeline_figure" where
  "timeline dat boxes time_range =
     (case map fromtimestamp time_range of
        [start, finish] \<Rightarrow>
          (case filter_window start finish (DataFrame dat) of
             Inl e \<Rightarrow> Inl e
           | Inr df \<Rightarrow>
               Inr \<lparr>tf_data = (if by_country boxes then timeline_by_country df
                               else timeline_aggregate df),
                    tf_title = ''Sales Over Time''\<rparr>)
      | _ \<Rightarrow> Inl ValueError)"

subsection \<open>The callback \<^verbatim>\<open>products\<close>\<close>

text \<open>
  With the country split: the statement with \<^verbatim>\<open>n = 3\<close>, one bar trace for each group of
  \<^verbatim>\<open>product_name\<close>. Grouping a frame without columns raises \<^verbatim>\<open>KeyError\<close>.
\<close>

definition products_by_country :: "pc_row frame \<Rightarrow> py_error + bar list" where
  "products_by_country df =
     (case df of
        NoColumns \<Rightarrow> Inl (KeyError ''product_name'')
      | Rows rs \<Rightarrow>
          Inr (map (\<lambda>(product, d).
                      \<lparr>bar_ids = map (\<lambda>(i, r). i) d,
                       bar_x = map (\<lambda>(i, r). pc_sales_amount r) d,
                       bar_y = map (\<lambda>(i, r). pc_country r) d,
                       bar_orientation = ''h'',
                       bar_name = Some product\<rparr>)
                   (groupby pc_product_name rs)))"

text \<open>
  Without it: the statement with \<^verbatim>\<open>n = 5\<close> and one bar trace. \<^verbatim>\<open>df.index\<close> exists in
  every frame; \<^verbatim>\<open>df.sales_amount\<close> raises \<^verbatim>\<open>AttributeError\<close> in a frame without
  columns.
\<close>

definition products_aggregate :: "tp_row frame \<Rightarrow> py_error + bar list" where
  "products_aggregate df =
     (case df of
        NoColumns \<Rightarrow> Inl (AttributeError ''sales_amount'')
      | Rows rs \<Rightarrow>
          Inr [\<lparr>bar_ids = map (\<lambda>(i, r). i) rs,
                bar_x = map (\<lambda>(i, r). tp_sales_amount r) rs,
                bar_y = map (\<lambda>(i, r). tp_product_name r) rs,
                bar_orientation = ''h'',
                bar_name = None\<rparr>])"

definition products :: "fact list \<Rightarrow> string list option \<Rightarrow> int list \<Rightarrow> py_error + products_figure" where
  "products facts boxes time_range =
     (case map fromtimestamp time_range of
        [start, finish] \<Rightarrow>
          (case (if by_country boxes
                 then products_by_country
                        (DataFrame (top_products_by_country_query facts start finish 3))
                 else products_aggregate
                        (DataFrame (top_products_query facts start finish 5))) of
             Inl e \<Rightarrow> Inl e
           | Inr traces \<Rightarrow>
               Inr \<lparr>pf_data = traces,
                    pf_title = ''Most Profitable Products'',
                    pf_yaxis_automargin = True,
                    pf_barmode = ''stack''\<rparr>)
      | _ \<Rightarrow> Inl ValueError)"

text \<open>The number of points a timeline figure draws.\<close>

definition timeline_points :: "timeline_figure \<Rightarrow> nat" where
  "timeline_points fig = sum_list (map (\<lambda>s. length (sc_x s)) (tf_data fig))"

subsection \<open>The order of first appearance\<close>

text \<open>
  The order the specification names for the traces of the split timeline: every
  value once, in the order in which the values first occur.
\<close>

definition first_appearance :: "'a list \<Rightarrow> 'a list" where
  "first_appearance xs = rev (remdups (rev xs))"

subsection \<open>Example data\<close>

text \<open>Three rows of the time-series statement; time is counted in days here.\<close>

definition example_rows :: "ts_row list" where
  "example_rows =
     [\<lparr>ts_sales_amount = 100, ts_dt = 10, ts_year = 2003, ts_week = 2, ts_country = ''USA''\<rparr>,
      \<lparr>ts_sales_amount = 250, ts_dt = 20, ts_year = 2003, ts_week = 3, ts_country = ''France''\<rparr>,
      \<lparr>ts_sales_amount = 70, ts_dt = 30, ts_year = 2003, ts_week = 3, ts_country = ''USA''\<rparr>]"

text \<open>Two rows in the order of their dates, the later one in week 1 of the next year.\<close>

definition new_year_rows :: "ts_row list" where
  "new_year_rows =
     [\<lparr>ts_sales_amount = 40, ts_dt = 360, ts_year = 2003, ts_week = 52, ts_country = ''USA''\<rparr>,
      \<lparr>ts_sales_amount = 90, ts_dt = 370, ts_year = 2004, ts_week = 1, ts_country = ''USA''\<rparr>]"

text \<open>Four joined rows of the database, and those of them sold in the USA.\<close>

definition example_facts :: "fact list" where
  "example_facts =
     [\<lparr>f_dt = 10, f_country = ''USA'', f_product_code = ''S10'', f_product_name = ''Car'',
       f_sales_amount = 100\<rparr>,
      \<lparr>f_dt = 12, f_country = ''USA'', f_product_code = ''S20'', f_product_name = ''Ship'',
       f_sales_amount = 300\<rparr>,
      \<lparr>f_dt = 20, f_country = ''USA'', f_product_code = ''S10'', f_product_name = ''Car'',
       f_sales_amount = 50\<rparr>,
      \<lparr>f_dt = 25, f_country = ''France'', f_product_code = ''S10'', f_product_name = ''Car'',
       f_sales_amount = 500\<rparr>]"

definition usa_facts :: "fact list" where
  "usa_facts = filter (\<lambda>f. f_country f = ''USA'') example_facts"

text \<open>The time-series rows of \<open>usa_facts\<close>, with a constant year and weeks of seven days.\<close>

definition usa_rows :: "ts_row list" where
  "usa_rows = timeseries_query (\<lambda>t. 2003) (\<lambda>t. t div 7) usa_facts"

section \<open>Properties\<close>

subsection \<open>The window filter\<close>

lemma DataFrame_nonempty: "dat \<noteq> [] \<Longrightarrow> DataFrame dat = Rows (enumerate 0 dat)"
  by (simp add: DataFrame_def)

lemma map_snd_filter_enumerate:
  "map snd (filter (\<lambda>(i, r). P r) (enumerate n xs)) = filter P xs"
  by (induction xs arbitrary: n) auto

text \<open>
  Claim C1. For a window with \<open>start \<le> finish\<close>, the filtering step of \<^verbatim>\<open>timeline\<close>
  keeps exactly the rows whose date lies strictly between \<open>start\<close> and \<open>finish\<close>, in
  their order: every kept row has \<open>start < dt < finish\<close>, and no row dated \<open>start\<close> or
  \<open>finish\<close> is kept. The step succeeds on every query result that has a row; on the
  empty result there is nothing to keep, and reading the column \<^verbatim>\<open>dt\<close> raises.
\<close>

theorem filter_window_open_interval:
  assumes "start \<le> finish"
  shows "(dat \<noteq> [] \<longrightarrow>
           (\<exists>df. filter_window start finish (DataFrame dat) = Inr df
              \<and> map snd df = filter (\<lambda>r. start < ts_dt r \<and> ts_dt r < finish) dat
              \<and> (\<forall>r \<in> snd ` set df. start < ts_dt r \<and> ts_dt r < finish)
              \<and> (\<forall>r \<in> set dat. ts_dt r = start \<or> ts_dt r = finish \<longrightarrow> r \<notin> snd ` set df)))
       \<and> (dat = [] \<longrightarrow> filter_window start finish (DataFrame dat) = Inl (KeyError ''dt''))"
proof -
  let ?df = "filter (\<lambda>(i, r). ts_dt r > start \<and> ts_dt r < finish) (enumerate 0 dat)"
  have run: "filter_window start finish (DataFrame dat) = Inr ?df" if "dat \<noteq> []"
    using that by (simp add: filter_window_def DataFrame_nonempty)
  have rows: "map snd ?df = filter (\<lambda>r. start < ts_dt r \<and> ts_dt r < finish) dat"
    by (rule map_snd_filter_enumerate)
  have inside: "\<forall>r \<in> snd ` set ?df. start < ts_dt r \<and> ts_dt r < finish"
    by auto
  have edge: "\<forall>r \<in> set dat. ts_dt r = start \<or> ts_dt r = finish \<longrightarrow> r \<notin> snd ` set ?df"
    by auto
  have none: "filter_window start finish (DataFrame dat) = Inl (KeyError ''dt'')" if "dat = []"
    using that by (simp add: filter_window_def DataFrame_def)
  from run rows inside edge none show ?thesis by blast
qed

text \<open>
  The window from day 10 to day 30 over \<open>example_rows\<close>: the rows dated 10 and 30 sit on
  its ends, and only the row dated 20 is kept.
\<close>

theorem filter_window_open_interval_witness:
  "(10::int) \<le> 30 \<and> example_rows \<noteq> []
   \<and> filter (\<lambda>r. 10 < ts_dt r \<and> ts_dt r < 30) example_rows =
        [\<lparr>ts_sales_amount = 250, ts_dt = 20, ts_year = 2003, ts_week = 3,
          ts_country = ''France''\<rparr>]
   \<and> (\<exists>df. filter_window 10 30 (DataFrame example_rows) = Inr df
            \<and> map snd df = filter (\<lambda>r. 10 < ts_dt r \<and> ts_dt r < 30) example_rows
            \<and> (\<forall>r \<in> snd ` set df. 10 < ts_dt r \<and> ts_dt r < 30)
            \<and> (\<forall>r \<in> set example_rows. ts_dt r = 10 \<or> ts_dt r = 30 \<longrightarrow> r \<notin> snd ` set df))"
proof -
  have window: "(10::int) \<le> 30" by simp
  have rows: "example_rows \<noteq> []" by code_simp
  have kept: "filter (\<lambda>r. 10 < ts_dt r \<and> ts_dt r < 30) example_rows =
        [\<lparr>ts_sales_amount = 250, ts_dt = 20, ts_year = 2003, ts_week = 3,
          ts_country = ''France''\<rparr>]"
    by code_simp
  from filter_window_open_interval [OF window, of example_rows] window rows kept
  show ?thesis by blast
qed


subsection \<open>Groups of a frame\<close>

lemma fst_groupby: "map fst (groupby key df) = sort (remdups (map (\<lambda>(i, r). key r) df))"
  by (simp add: groupby_def comp_def)

lemma groupby_keys:
  "map fst (groupby key df) = sorted_list_of_set (key ` snd ` set df)"
proof -
  have "set (map (\<lambda>(i, r). key r) df) = key ` snd ` set df"
    by force
  then show ?thesis
    by (simp add: fst_groupby sorted_list_of_set_sort_remdups [symmetric] del: set_map)
qed

lemma groupby_group:
  "(k, d) \<in> set (groupby key df) \<Longrightarrow> d = filter (\<lambda>(i, r). key r = k) df \<and> d \<noteq> []"
  by (auto simp: groupby_def filter_empty_conv)

lemma name_by_country:
  "map sc_name (timeline_by_country df) = map Some (map fst (groupby ts_country df))"
  by (simp add: timeline_by_country_def split_def comp_def)

lemma points_by_country:
  assumes "s \<in> set (timeline_by_country df)" and "sc_name s = Some c"
  shows "zip (sc_x s) (sc_y s) =
           map (\<lambda>(i, r). (ts_dt r, ts_sales_amount r)) (filter (\<lambda>(i, r). ts_country r = c) df)"
    and "sc_ids s = map (\<lambda>(i, r). RowIndex i) (filter (\<lambda>(i, r). ts_country r = c) df)"
proof -
  from assms(1) obtain k d where kd: "(k, d) \<in> set (groupby ts_country df)"
    and s: "s = \<lparr>sc_x = map (\<lambda>(i, r). ts_dt r) d, sc_y = map (\<lambda>(i, r). ts_sales_amount r) d,
             sc_ids = map (\<lambda>(i, r). RowIndex i) d, sc_mode = ''markers'', sc_name = Some k\<rparr>"
    by (auto simp: timeline_by_country_def)
  from s assms(2) have "k = c" by simp
  with groupby_group [OF kd] have d: "d = filter (\<lambda>(i, r). ts_country r = c) df" by simp
  show "zip (sc_x s) (sc_y s) =
           map (\<lambda>(i, r). (ts_dt r, ts_sales_amount r)) (filter (\<lambda>(i, r). ts_country r = c) df)"
    by (simp add: s d zip_map_map split_def zip_same_conv_map)
  show "sc_ids s = map (\<lambda>(i, r). RowIndex i) (filter (\<lambda>(i, r). ts_country r = c) df)"
    by (simp add: s d)
qed


lemma find_hd_filter: "filter P xs \<noteq> [] \<Longrightarrow> find P xs = Some (hd (filter P xs))"
  by (induction xs) auto

lemma sum_list_filter_snd:
  "sum_list (map (\<lambda>(i, r). g r) (filter (\<lambda>(i, r). P r) df)) = sum_list (map g (filter P (map snd df)))"
  by (induction df) auto

lemma hd_filter_snd:
  "filter (\<lambda>(i, r). P r) df \<noteq> [] \<Longrightarrow> snd (hd (filter (\<lambda>(i, r). P r) df)) = hd (filter P (map snd df))"
  by (induction df) auto

lemma filter_snd_empty: "filter (\<lambda>(i, r). P r) df = [] \<longleftrightarrow> filter P (map snd df) = []"
  by (induction df) auto

subsection \<open>The aggregated timeline\<close>

lemma timeline_aggregate_shape:
  "timeline_aggregate df =
     [\<lparr>sc_x = map (\<lambda>(k, d). ts_dt (snd (hd d))) (groupby (\<lambda>r. (ts_week r, ts_year r)) df),
       sc_y = map (\<lambda>(k, d). sum_list (map (\<lambda>(i, r). ts_sales_amount r) d))
                (groupby (\<lambda>r. (ts_week r, ts_year r)) df),
       sc_ids = map (\<lambda>(k, d). case k of (w, y) \<Rightarrow> Period w y)
                  (groupby (\<lambda>r. (ts_week r, ts_year r)) df),
       sc_mode = ''markers'', sc_name = None\<rparr>]"
  by (simp add: timeline_aggregate_def Let_def split_def comp_def)

lemma timeline_unsplit:
  assumes "\<not> by_country boxes" and "filter_window start finish (DataFrame dat) = Inr df"
  shows "timeline dat boxes [start, finish] =
           Inr \<lparr>tf_data = timeline_aggregate df, tf_title = ''Sales Over Time''\<rparr>"
  using assms by (simp add: timeline_def fromtimestamp_def)

lemma timeline_split:
  assumes "by_country boxes" and "filter_window start finish (DataFrame dat) = Inr df"
  shows "timeline dat boxes [start, finish] =
           Inr \<lparr>tf_data = timeline_by_country df, tf_title = ''Sales Over Time''\<rparr>"
  using assms by (simp add: timeline_def fromtimestamp_def)

text \<open>
  Claim C7. Without the country split, the timeline groups the filtered rows by
  \<open>(week, year)\<close> into a single trace with exactly one point per period that occurs
  among the rows. The \<open>y\<close> value of the point of a period is the sum of the sales
  amounts of the rows of that period, and its \<open>x\<close> value is the date of the first row
  of that period in the order of the rows.
\<close>

theorem timeline_aggregate_one_point_per_period:
  assumes "\<not> by_country boxes" and "filter_window start finish (DataFrame dat) = Inr df"
  shows "\<exists>s. timeline dat boxes [start, finish] = Inr \<lparr>tf_data = [s], tf_title = ''Sales Over Time''\<rparr>
     \<and> sc_ids s = map (\<lambda>(w, y). Period w y)
                     (sorted_list_of_set ((\<lambda>r. (ts_week r, ts_year r)) ` snd ` set df))
     \<and> length (sc_x s) = length (sc_ids s) \<and> length (sc_y s) = length (sc_ids s)
     \<and> (\<forall>n < length (sc_ids s). \<forall>w y. sc_ids s ! n = Period w y \<longrightarrow>
          sc_y s ! n = sum_list (map ts_sales_amount
                          (filter (\<lambda>r. ts_week r = w \<and> ts_year r = y) (map snd df)))
        \<and> (\<exists>r. find (\<lambda>r. ts_week r = w \<and> ts_year r = y) (map snd df) = Some r
                \<and> sc_x s ! n = ts_dt r))"
proof -
  let ?period = "\<lambda>r. (ts_week r, ts_year r)"
  let ?g = "groupby ?period df"
  let ?s = "\<lparr>sc_x = map (\<lambda>(k, d). ts_dt (snd (hd d))) ?g,
       sc_y = map (\<lambda>(k, d). sum_list (map (\<lambda>(i, r). ts_sales_amount r) d)) ?g,
       sc_ids = map (\<lambda>(k, d). case k of (w, y) \<Rightarrow> Period w y) ?g,
       sc_mode = ''markers'', sc_name = None\<rparr>"
  have run: "timeline dat boxes [start, finish] = Inr \<lparr>tf_data = [?s], tf_title = ''Sales Over Time''\<rparr>"
    using timeline_unsplit [OF assms] by (simp add: timeline_aggregate_shape)
  have "sc_ids ?s = map (\<lambda>(w, y). Period w y) (map fst ?g)"
    by (simp add: split_def comp_def)
  then have ids: "sc_ids ?s = map (\<lambda>(w, y). Period w y) (sorted_list_of_set (?period ` snd ` set df))"
    by (simp only: groupby_keys)
  have lens: "length (sc_x ?s) = length (sc_ids ?s)" "length (sc_y ?s) = length (sc_ids ?s)"
    by simp_all
  have pts: "sc_y ?s ! n = sum_list (map ts_sales_amount
                          (filter (\<lambda>r. ts_week r = w \<and> ts_year r = y) (map snd df)))
        \<and> (\<exists>r. find (\<lambda>r. ts_week r = w \<and> ts_year r = y) (map snd df) = Some r
                \<and> sc_x ?s ! n = ts_dt r)"
    if n: "n < length (sc_ids ?s)" and id: "sc_ids ?s ! n = Period w y" for n w y
  proof -
    from n have n': "n < length ?g" by simp
    obtain k d where kd: "?g ! n = (k, d)" by (cases "?g ! n")
    with n' have mem: "(k, d) \<in> set ?g" by (metis nth_mem)
    from id n' kd have k: "k = (w, y)" by (cases k) simp
    from groupby_group [OF mem] k
    have d: "d = filter (\<lambda>(i, r). ts_week r = w \<and> ts_year r = y) df" and ne: "d \<noteq> []"
      by auto
    have y: "sc_y ?s ! n = sum_list (map ts_sales_amount
                          (filter (\<lambda>r. ts_week r = w \<and> ts_year r = y) (map snd df)))"
      using n' kd by (simp add: d sum_list_filter_snd)
    from ne d have ne': "filter (\<lambda>r. ts_week r = w \<and> ts_year r = y) (map snd df) \<noteq> []"
      by (simp add: filter_snd_empty)
    have "sc_x ?s ! n = ts_dt (snd (hd d))" using n' kd by simp
    also have "snd (hd d) = hd (filter (\<lambda>r. ts_week r = w \<and> ts_year r = y) (map snd df))"
      using ne unfolding d by (rule hd_filter_snd)
    finally have x: "sc_x ?s ! n = ts_dt (hd (filter (\<lambda>r. ts_week r = w \<and> ts_year r = y) (map snd df)))" .
    from find_hd_filter [OF ne'] x y show ?thesis by simp
  qed
  from run ids lens pts show ?thesis by blast
qed

text \<open>
  All of \<open>example_rows\<close> lies in the window from day 0 to day 100; without the split the
  three rows fall into the two periods \<open>(2, 2003)\<close> and \<open>(3, 2003)\<close>.
\<close>

theorem timeline_aggregate_one_point_per_period_witness:
  "\<not> by_country None
   \<and> filter_window 0 100 (DataFrame example_rows) = Inr (enumerate 0 example_rows)
   \<and> timeline example_rows None [0, 100] =
        Inr \<lparr>tf_data = [\<lparr>sc_x = [10, 20], sc_y = [100, 320],
                          sc_ids = [Period 2 2003, Period 3 2003],
                          sc_mode = ''markers'', sc_name = None\<rparr>],
             tf_title = ''Sales Over Time''\<rparr>
   \<and> (\<exists>s. timeline example_rows None [0, 100] =
              Inr \<lparr>tf_data = [s], tf_title = ''Sales Over Time''\<rparr>
     \<and> sc_ids s = map (\<lambda>(w, y). Period w y)
                     (sorted_list_of_set
                        ((\<lambda>r. (ts_week r, ts_year r)) ` snd ` set (enumerate 0 example_rows)))
     \<and> length (sc_x s) = length (sc_ids s) \<and> length (sc_y s) = length (sc_ids s)
     \<and> (\<forall>n < length (sc_ids s). \<forall>w y. sc_ids s ! n = Period w y \<longrightarrow>
          sc_y s ! n = sum_list (map ts_sales_amount
                          (filter (\<lambda>r. ts_week r = w \<and> ts_year r = y)
                             (map snd (enumerate 0 example_rows))))
        \<and> (\<exists>r. find (\<lambda>r. ts_week r = w \<and> ts_year r = y)
                     (map snd (enumerate 0 example_rows)) = Some r
                \<and> sc_x s ! n = ts_dt r)))"
proof -
  have flag: "\<not> by_country None" by code_simp
  have window: "filter_window 0 100 (DataFrame example_rows) = Inr (enumerate 0 example_rows)"
    by code_simp
  have figure: "timeline example_rows None [0, 100] =
        Inr \<lparr>tf_data = [\<lparr>sc_x = [10, 20], sc_y = [100, 320],
                          sc_ids = [Period 2 2003, Period 3 2003],
                          sc_mode = ''markers'', sc_name = None\<rparr>],
             tf_title = ''Sales Over Time''\<rparr>"
    by code_simp
  from timeline_aggregate_one_point_per_period [OF flag window] flag window figure
  show ?thesis by blast
qed

subsection \<open>One country\<close>

lemma insort_key_map: "insort_key (\<lambda>x. x) (f a) (map f ys) = map f (insort_key f a ys)"
  by (induction ys) auto

lemma sort_map_key: "sort (map f xs) = map f (sort_key f xs)"
  by (induction xs) (auto simp: insort_key_map)

lemma filter_same_key:
  assumes "distinct (map f xs)" and "x \<in> set xs"
  shows "filter (\<lambda>y. f y = f x) xs = [x]"
  using assms
proof (induction xs)
  case Nil
  then show ?case by simp
next
  case (Cons a xs)
  show ?case
  proof (cases "a = x")
    case True
    from Cons.prems(1) True have "f x \<notin> f ` set xs" by simp
    then have "\<forall>y \<in> set xs. f y \<noteq> f x" by (metis image_eqI)
    then have "filter (\<lambda>y. f y = f x) xs = []"
      by (simp add: filter_empty_conv)
    with True show ?thesis by simp
  next
    case False
    with Cons.prems have "x \<in> set xs" and "f a \<noteq> f x" by auto
    with Cons show ?thesis by simp
  qed
qed

lemma groupby_distinct_keys:
  assumes "distinct (map (\<lambda>(i, r). key r) df)"
  shows "groupby key df = map (\<lambda>p. (key (snd p), [p])) (sort_key (\<lambda>(i, r). key r) df)"
proof -
  let ?f = "\<lambda>(i, r). key r"
  have eq: "(\<lambda>(i, r). key r = k) = (\<lambda>y. ?f y = k)" for k by auto
  have "groupby key df = map (\<lambda>x. (?f x, filter (\<lambda>y. ?f y = ?f x) df)) (sort_key ?f df)"
    using assms by (simp add: groupby_def eq distinct_remdups_id sort_map_key comp_def)
  also have "\<dots> = map (\<lambda>x. (?f x, [x])) (sort_key ?f df)"
    by (rule map_cong) (simp_all add: filter_same_key [OF assms])
  also have "\<dots> = map (\<lambda>p. (key (snd p), [p])) (sort_key ?f df)"
    by (simp add: split_def)
  finally show ?thesis .
qed

lemma remdups_constant:
  assumes "xs \<noteq> []" and "\<forall>x \<in> set xs. x = c"
  shows "remdups xs = [c]"
  using assms
proof (induction xs)
  case Nil
  then show ?case by simp
next
  case (Cons a xs)
  from Cons.prems(2) have a: "a = c" by simp
  show ?case
  proof (cases "xs = []")
    case True
    with a show ?thesis by simp
  next
    case False
    with Cons have ih: "remdups xs = [c]" by simp
    from False Cons.prems(2) have "c \<in> set xs" by (cases xs) auto
    with a ih show ?thesis by simp
  qed
qed

lemma groupby_single_key:
  assumes "df \<noteq> []" and "\<forall>p \<in> set df. key (snd p) = c"
  shows "groupby key df = [(c, df)]"
proof -
  have "remdups (map (\<lambda>(i, r). key r) df) = [c]"
    using assms by (intro remdups_constant) auto
  moreover have "filter (\<lambda>(i, r). key r = c) df = df"
    using assms(2) by (auto simp: filter_id_conv)
  ultimately show ?thesis by (simp add: groupby_def)
qed

lemma timeline_aggregate_distinct_periods:
  assumes "distinct (map (\<lambda>(i, r). (ts_week r, ts_year r)) df)"
  shows "timeline_aggregate df =
     [\<lparr>sc_x = map (\<lambda>(i, r). ts_dt r) (sort_key (\<lambda>(i, r). (ts_week r, ts_year r)) df),
       sc_y = map (\<lambda>(i, r). ts_sales_amount r) (sort_key (\<lambda>(i, r). (ts_week r, ts_year r)) df),
       sc_ids = map (\<lambda>(i, r). Period (ts_week r) (ts_year r))
                  (sort_key (\<lambda>(i, r). (ts_week r, ts_year r)) df),
       sc_mode = ''markers'', sc_name = None\<rparr>]"
  by (simp add: timeline_aggregate_shape groupby_distinct_keys [OF assms] comp_def split_def)

lemma timeline_by_country_single:
  assumes "df \<noteq> []" and "\<forall>p \<in> set df. ts_country (snd p) = c"
  shows "timeline_by_country df =
     [\<lparr>sc_x = map (\<lambda>(i, r). ts_dt r) df,
       sc_y = map (\<lambda>(i, r). ts_sales_amount r) df,
       sc_ids = map (\<lambda>(i, r). RowIndex i) df,
       sc_mode = ''markers'', sc_name = Some c\<rparr>]"
  by (simp add: timeline_by_country_def groupby_single_key [OF assms])

lemma timeseries_query_keys:
  "map (\<lambda>r. (ts_week r, ts_year r, ts_country r)) (timeseries_query extract_year extract_week facts) =
     remdups (map (\<lambda>f. (extract_week (f_dt f), extract_year (f_dt f), f_country f))
                  (sort_key f_dt facts))"
  by (simp add: timeseries_query_def Let_def sql_group_by_def comp_def split_def)

lemma timeseries_query_distinct:
  "distinct (map (\<lambda>r. (ts_week r, ts_year r, ts_country r))
               (timeseries_query extract_year extract_week facts))"
  by (simp only: timeseries_query_keys distinct_remdups)

lemma timeseries_query_country:
  assumes "\<forall>f \<in> set facts. f_country f = c"
    and "r \<in> set (timeseries_query extract_year extract_week facts)"
  shows "ts_country r = c"
proof -
  from assms(2) have "(ts_week r, ts_year r, ts_country r) \<in>
      set (map (\<lambda>r. (ts_week r, ts_year r, ts_country r))
             (timeseries_query extract_year extract_week facts))"
    by (simp del: map_map)
  then have "(ts_week r, ts_year r, ts_country r) \<in>
      (\<lambda>f. (extract_week (f_dt f), extract_year (f_dt f), f_country f)) ` set facts"
    by (simp only: timeseries_query_keys set_remdups set_map set_sort)
  with assms(1) show ?thesis by auto
qed

lemma timeseries_query_distinct_periods:
  assumes "\<forall>f \<in> set facts. f_country f = c"
  shows "distinct (map (\<lambda>r. (ts_week r, ts_year r))
                     (timeseries_query extract_year extract_week facts))"
proof -
  let ?q = "timeseries_query extract_year extract_week facts"
  have "map (\<lambda>r. (ts_week r, ts_year r, ts_country r)) ?q =
          map (\<lambda>r. (ts_week r, ts_year r, c)) ?q"
    by (rule map_cong) (simp_all add: timeseries_query_country [OF assms])
  with timeseries_query_distinct [of extract_year extract_week facts]
  have "distinct (map (\<lambda>r. (ts_week r, ts_year r, c)) ?q)" by simp
  then have "distinct (map (\<lambda>p. (fst p, fst (snd p))) (map (\<lambda>r. (ts_week r, ts_year r, c)) ?q))"
    by (subst distinct_map) (auto simp: inj_on_def)
  then show ?thesis by (simp add: comp_def)
qed

lemma enumerate_distinct_keys:
  assumes "distinct (map key xs)"
  shows "distinct (map (\<lambda>(i, r). key r) (filter P (enumerate n xs)))"
proof -
  have "map (\<lambda>(i, r). key r) (enumerate n xs) = map key xs"
    by (induction xs arbitrary: n) auto
  with assms have "distinct (map (\<lambda>(i, r). key r) (enumerate n xs))" by simp
  then show ?thesis by (rule distinct_map_filter)
qed

text \<open>
  Claim C8, amended. Let every row of the database carry the country \<open>c\<close>, let
  \<open>dat\<close> be the rows of the time-series statement in whatever order the database
  returns them, and let at least one of them lie inside the window. Then the timeline with
  the country split is exactly one trace, named \<open>c\<close>, and its \<open>(date, total)\<close>
  points are, as a multiset, the points of the single trace drawn without the split. The
  two traces list the points in the same order when the rows inside the window arrive in
  ascending order of \<open>(week, year)\<close>.
\<close>

theorem single_country_split_matches_aggregate:
  assumes single: "\<forall>f \<in> set facts. f_country f = c"
    and result: "mset dat = mset (timeseries_query extract_year extract_week facts)"
    and inside: "\<exists>r \<in> set dat. start < ts_dt r \<and> ts_dt r < finish"
    and on: "by_country boxes_on" and off: "\<not> by_country boxes_off"
  shows "\<exists>s1 s2.
           timeline dat boxes_on [start, finish] =
             Inr \<lparr>tf_data = [s1], tf_title = ''Sales Over Time''\<rparr>
         \<and> timeline dat boxes_off [start, finish] =
             Inr \<lparr>tf_data = [s2], tf_title = ''Sales Over Time''\<rparr>
         \<and> sc_name s1 = Some c
         \<and> mset (zip (sc_x s1) (sc_y s1)) = mset (zip (sc_x s2) (sc_y s2))
         \<and> (sorted (map (\<lambda>r. (ts_week r, ts_year r))
                        (filter (\<lambda>r. start < ts_dt r \<and> ts_dt r < finish) dat))
              \<longrightarrow> sc_x s1 = sc_x s2 \<and> sc_y s1 = sc_y s2)"
proof -
  let ?q = "timeseries_query extract_year extract_week facts"
  let ?period = "\<lambda>(i, r). (ts_week r, ts_year r)"
  let ?df = "filter (\<lambda>(i, r). ts_dt r > start \<and> ts_dt r < finish) (enumerate 0 dat)"
  from result have sets: "set dat = set ?q" by (rule mset_eq_setD)
  from result have "mset (map (\<lambda>r. (ts_week r, ts_year r)) dat) =
                    mset (map (\<lambda>r. (ts_week r, ts_year r)) ?q)" by simp
  from mset_eq_imp_distinct_iff [OF this]
  have "distinct (map (\<lambda>r. (ts_week r, ts_year r)) dat)"
    using timeseries_query_distinct_periods [OF single, of extract_year extract_week]
    by blast
  then have periods: "distinct (map ?period ?df)"
    by (rule enumerate_distinct_keys)
  from inside have ne: "dat \<noteq> []" by auto
  then have win: "filter_window start finish (DataFrame dat) = Inr ?df"
    by (simp add: filter_window_def DataFrame_nonempty)
  have rows: "map snd ?df = filter (\<lambda>r. start < ts_dt r \<and> ts_dt r < finish) dat"
    by (rule map_snd_filter_enumerate)
  with inside have "map snd ?df \<noteq> []" by (auto simp: filter_empty_conv)
  then have df_ne: "?df \<noteq> []" by auto
  have "snd ` set ?df \<subseteq> set dat"
    using rows by (metis filter_is_subset set_map)
  with sets single have country: "\<forall>p \<in> set ?df. ts_country (snd p) = c"
    using timeseries_query_country [OF single] by blast
  let ?s1 = "\<lparr>sc_x = map (\<lambda>(i, r). ts_dt r) ?df,
       sc_y = map (\<lambda>(i, r). ts_sales_amount r) ?df,
       sc_ids = map (\<lambda>(i, r). RowIndex i) ?df,
       sc_mode = ''markers'', sc_name = Some c\<rparr>"
  let ?s2 = "\<lparr>sc_x = map (\<lambda>(i, r). ts_dt r) (sort_key ?period ?df),
       sc_y = map (\<lambda>(i, r). ts_sales_amount r) (sort_key ?period ?df),
       sc_ids = map (\<lambda>(i, r). Period (ts_week r) (ts_year r)) (sort_key ?period ?df),
       sc_mode = ''markers'', sc_name = None\<rparr>"
  have run1: "timeline dat boxes_on [start, finish] =
             Inr \<lparr>tf_data = [?s1], tf_title = ''Sales Over Time''\<rparr>"
    by (simp only: timeline_split [OF on win] timeline_by_country_single [OF df_ne country])
  have run2: "timeline dat boxes_off [start, finish] =
             Inr \<lparr>tf_data = [?s2], tf_title = ''Sales Over Time''\<rparr>"
    by (simp only: timeline_unsplit [OF off win] timeline_aggregate_distinct_periods [OF periods])
  have name: "sc_name ?s1 = Some c" by simp
  have z1: "zip (sc_x ?s1) (sc_y ?s1) = map (\<lambda>(i, r). (ts_dt r, ts_sales_amount r)) ?df"
    by (simp add: zip_map_map zip_same_conv_map split_def)
  have z2: "zip (sc_x ?s2) (sc_y ?s2) =
              map (\<lambda>(i, r). (ts_dt r, ts_sales_amount r)) (sort_key ?period ?df)"
    by (simp add: zip_map_map zip_same_conv_map split_def)
  have content: "mset (zip (sc_x ?s1) (sc_y ?s1)) = mset (zip (sc_x ?s2) (sc_y ?s2))"
    by (simp only: z1 z2 mset_map mset_sort)
  have ordered: "sc_x ?s1 = sc_x ?s2 \<and> sc_y ?s1 = sc_y ?s2"
    if "sorted (map (\<lambda>r. (ts_week r, ts_year r))
                        (filter (\<lambda>r. start < ts_dt r \<and> ts_dt r < finish) dat))"
  proof -
    have "map ?period ?df = map (\<lambda>r. (ts_week r, ts_year r)) (map snd ?df)"
      by (simp add: split_def)
    with that rows have "sorted (map ?period ?df)" by simp
    then have "sort_key ?period ?df = ?df" by (rule sort_key_id_if_sorted)
    then show ?thesis by simp
  qed
  from run1 run2 name content ordered show ?thesis by blast
qed

text \<open>
  The rows of \<open>usa_facts\<close> carry one country; the window from day 0 to day 100 holds
  both of their time-series rows.
\<close>

theorem single_country_split_matches_aggregate_witness:
  "set (map f_country usa_facts) = {''USA''}
   \<and> mset usa_rows = mset (timeseries_query (\<lambda>t. 2003) (\<lambda>t. t div 7) usa_facts)
   \<and> (\<exists>r \<in> set usa_rows. 0 < ts_dt r \<and> ts_dt r < 100)
   \<and> by_country (Some [''by_country'']) \<and> \<not> by_country None
   \<and> (\<exists>s1 s2.
           timeline usa_rows (Some [''by_country'']) [0, 100] =
             Inr \<lparr>tf_data = [s1], tf_title = ''Sales Over Time''\<rparr>
         \<and> timeline usa_rows None [0, 100] =
             Inr \<lparr>tf_data = [s2], tf_title = ''Sales Over Time''\<rparr>
         \<and> sc_name s1 = Some ''USA''
         \<and> mset (zip (sc_x s1) (sc_y s1)) = mset (zip (sc_x s2) (sc_y s2))
         \<and> (sorted (map (\<lambda>r. (ts_week r, ts_year r))
                        (filter (\<lambda>r. 0 < ts_dt r \<and> ts_dt r < 100) usa_rows))
              \<longrightarrow> sc_x s1 = sc_x s2 \<and> sc_y s1 = sc_y s2))"
proof -
  have single: "\<forall>f \<in> set usa_facts. f_country f = ''USA''" by code_simp
  have result: "mset usa_rows = mset (timeseries_query (\<lambda>t. 2003) (\<lambda>t. t div 7) usa_facts)"
    by (simp add: usa_rows_def)
  have inside: "\<exists>r \<in> set usa_rows. 0 < ts_dt r \<and> ts_dt r < 100" by code_simp
  have on: "by_country (Some [''by_country''])" by code_simp
  have off: "\<not> by_country None" by code_simp
  have countries: "set (map f_country usa_facts) = {''USA''}" by code_simp
  from single_country_split_matches_aggregate [OF single result inside on off]
    countries result inside on off
  show ?thesis by blast
qed

text \<open>
  Claim C8 as stated fails on the same single-country data when no row lies inside the
  window, here the window from day 0 to day 0: the timeline with the country split has no
  trace at all, where the claim promises exactly one; the timeline without the split has
  one trace, without points.
\<close>

theorem single_country_empty_window_counterexample:
  "set (map f_country usa_facts) = {''USA''}
   \<and> timeline usa_rows (Some [''by_country'']) [0, 0] =
        Inr \<lparr>tf_data = [], tf_title = ''Sales Over Time''\<rparr>
   \<and> timeline usa_rows None [0, 0] =
        Inr \<lparr>tf_data = [\<lparr>sc_x = [], sc_y = [], sc_ids = [], sc_mode = ''markers'',
                          sc_name = None\<rparr>],
             tf_title = ''Sales Over Time''\<rparr>"
  by code_simp

text \<open>
  The points of the two traces need not come in the same order. Rows that arrive in the
  order of their dates are drawn in that order with the split; without it pandas sorts the
  periods by week and then by year, and week 1 of 2004 comes before week 52 of 2003.
\<close>

lemma aggregate_orders_by_week_then_year:
  "timeline new_year_rows (Some [''by_country'']) [0, 1000] =
     Inr \<lparr>tf_data = [\<lparr>sc_x = [360, 370], sc_y = [40, 90],
                       sc_ids = [RowIndex 0, RowIndex 1],
                       sc_mode = ''markers'', sc_name = Some ''USA''\<rparr>],
          tf_title = ''Sales Over Time''\<rparr>
   \<and> timeline new_year_rows None [0, 1000] =
     Inr \<lparr>tf_data = [\<lparr>sc_x = [370, 360], sc_y = [90, 40],
                       sc_ids = [Period 1 2004, Period 52 2003],
                       sc_mode = ''markers'', sc_name = None\<rparr>],
          tf_title = ''Sales Over Time''\<rparr>"
  by code_simp

subsection \<open>The ranking statements\<close>

lemma sorted_desc_sort_key:
  fixes f :: "'a \<Rightarrow> int"
  shows "sorted_wrt (\<lambda>a b. b \<le> a) (map f (sort_key (\<lambda>r. - f r) xs))"
proof -
  have "sorted (map (\<lambda>r. - f r) (sort_key (\<lambda>r. - f r) xs))"
    by (rule sorted_sort_key)
  then show ?thesis
    by (simp add: sorted_wrt_map)
qed

lemma sorted_desc_take:
  fixes f :: "'a \<Rightarrow> int"
  shows "sorted_wrt (\<lambda>a b. b \<le> a) (map f (take n (sort_key (\<lambda>r. - f r) xs)))"
  using sorted_wrt_take [OF sorted_desc_sort_key, of n f xs] by (simp add: take_map)

lemma top_products_query_limit: "length (top_products_query facts start finish n) \<le> n"
  by (simp add: top_products_query_def Let_def)

lemma top_products_query_sorted:
  "sorted_wrt (\<lambda>a b. b \<le> a) (map tp_sales_amount (top_products_query facts start finish n))"
  unfolding top_products_query_def Let_def by (rule sorted_desc_take)









subsection \<open>The empty window\<close>

lemma in_window_degenerate: "finish \<le> start \<Longrightarrow> in_window start finish facts = []"
  by (auto simp: in_window_def filter_empty_conv)

lemma top_products_query_degenerate:
  "finish \<le> start \<Longrightarrow> top_products_query facts start finish n = []"
  by (simp add: top_products_query_def in_window_degenerate sql_group_by_def)

lemma top_products_by_country_query_degenerate:
  "finish \<le> start \<Longrightarrow> top_products_by_country_query facts start finish n = []"
  by (simp add: top_products_by_country_query_def ranked_rows_def row_number_over_def
      products_per_country_def in_window_degenerate sql_group_by_def)

lemma products_degenerate_window:
  assumes "finish \<le> start"
  shows "products facts boxes [start, finish] =
           Inl (if by_country boxes then KeyError ''product_name''
                else AttributeError ''sales_amount'')"
  using assms
  by (simp add: products_def fromtimestamp_def top_products_query_degenerate
      top_products_by_country_query_degenerate DataFrame_def products_by_country_def
      products_aggregate_def)

text \<open>
  Claim C3, on the code. For every window whose start is not before its finish (the
  start is \<open>d\<close> units after the finish \<open>t\<close>; \<open>d = 0\<close> is the empty window) the
  callback \<^verbatim>\<open>products\<close> returns no chart: whatever the database holds, the statement
  selects no row, the frame built from the empty result has no columns, and the callback
  raises \<^verbatim>\<open>AttributeError\<close> without the country split and \<^verbatim>\<open>KeyError\<close> with it.
  The claim promises a chart without data points and no exception.
\<close>

theorem products_empty_window_raises:
  "products facts None [t + int d, t] = Inl (AttributeError ''sales_amount'')
   \<and> products facts (Some [''by_country'']) [t + int d, t] = Inl (KeyError ''product_name'')"
  by (simp add: products_degenerate_window by_country_def)

text \<open>
  The callback \<^verbatim>\<open>timeline\<close> does what the claim says whenever the database
  returned a row at all: its frame keeps its columns when the filter empties it.
\<close>

lemma timeline_degenerate_window:
  assumes "finish \<le> start" and "dat \<noteq> []"
  shows "\<exists>fig. timeline dat boxes [start, finish] = Inr fig \<and> timeline_points fig = 0"
proof -
  have "filter (\<lambda>(i, r). ts_dt r > start \<and> ts_dt r < finish) (enumerate 0 dat) = []"
    using assms(1) by (auto simp: filter_empty_conv)
  with assms(2) have win: "filter_window start finish (DataFrame dat) = Inr []"
    by (simp add: filter_window_def DataFrame_nonempty)
  show ?thesis
    by (cases "by_country boxes")
       (simp_all add: timeline_split [OF _ win] timeline_unsplit [OF _ win] timeline_points_def
          timeline_by_country_def timeline_aggregate_def groupby_def)
qed

subsection \<open>The order of the query rows\<close>

text \<open>
  The figure depends on the order in which the database returns the rows of the time-series
  statement, whose outer \<^verbatim>\<open>SELECT\<close> has no \<^verbatim>\<open>ORDER BY\<close>: \<^verbatim>\<open>'first'\<close> takes the date of
  whichever row of a period comes first. The same three rows in reverse order give another
  date for the period \<open>(3, 2003)\<close>.
\<close>

lemma timeline_depends_on_row_order:
  "timeline example_rows None [0, 100] =
     Inr \<lparr>tf_data = [\<lparr>sc_x = [10, 20], sc_y = [100, 320],
                       sc_ids = [Period 2 2003, Period 3 2003],
                       sc_mode = ''markers'', sc_name = None\<rparr>],
          tf_title = ''Sales Over Time''\<rparr>
   \<and> timeline (rev example_rows) None [0, 100] =
     Inr \<lparr>tf_data = [\<lparr>sc_x = [10, 30], sc_y = [100, 320],
                       sc_ids = [Period 2 2003, Period 3 2003],
                       sc_mode = ''markers'', sc_name = None\<rparr>],
          tf_title = ''Sales Over Time''\<rparr>"
  by code_simp

subsection \<open>The checklist value\<close>

text \<open>
  Claim C10. The condition of both callbacks holds exactly for a non-empty list that
  contains \<^verbatim>\<open>'by_country'\<close>. For \<^verbatim>\<open>None\<close>, for the empty list and for every list
  without \<^verbatim>\<open>'by_country'\<close>, \<^verbatim>\<open>timeline\<close> builds its figure from the
  \<open>(week, year)\<close> aggregate and \<^verbatim>\<open>products\<close> runs the top-products statement with
  \<open>n = 5\<close>; for a non-empty list with \<^verbatim>\<open>'by_country'\<close>, \<^verbatim>\<open>timeline\<close> builds one
  trace per country and \<^verbatim>\<open>products\<close> runs the per-country statement with \<open>n = 3\<close>.
\<close>

theorem by_country_checkbox_paths:
  "(by_country boxes \<longleftrightarrow> (\<exists>bs. boxes = Some bs \<and> bs \<noteq> [] \<and> ''by_country'' \<in> set bs))
   \<and> (boxes = None \<or> boxes = Some [] \<or> (\<exists>bs. boxes = Some bs \<and> ''by_country'' \<notin> set bs) \<longrightarrow>
        timeline dat boxes [start, finish] =
          (case filter_window start finish (DataFrame dat) of
             Inl e \<Rightarrow> Inl e
           | Inr df \<Rightarrow> Inr \<lparr>tf_data = timeline_aggregate df, tf_title = ''Sales Over Time''\<rparr>)
      \<and> products facts boxes [start, finish] =
          (case products_aggregate (DataFrame (top_products_query facts start finish 5)) of
             Inl e \<Rightarrow> Inl e
           | Inr traces \<Rightarrow>
               Inr \<lparr>pf_data = traces, pf_title = ''Most Profitable Products'',
                    pf_yaxis_automargin = True, pf_barmode = ''stack''\<rparr>))
   \<and> ((\<exists>bs. boxes = Some bs \<and> bs \<noteq> [] \<and> ''by_country'' \<in> set bs) \<longrightarrow>
        timeline dat boxes [start, finish] =
          (case filter_window start finish (DataFrame dat) of
             Inl e \<Rightarrow> Inl e
           | Inr df \<Rightarrow> Inr \<lparr>tf_data = timeline_by_country df, tf_title = ''Sales Over Time''\<rparr>)
      \<and> products facts boxes [start, finish] =
          (case products_by_country
                  (DataFrame (top_products_by_country_query facts start finish 3)) of
             Inl e \<Rightarrow> Inl e
           | Inr traces \<Rightarrow>
               Inr \<lparr>pf_data = traces, pf_title = ''Most Profitable Products'',
                    pf_yaxis_automargin = True, pf_barmode = ''stack''\<rparr>))"
proof -
  have flag: "by_country boxes \<longleftrightarrow> (\<exists>bs. boxes = Some bs \<and> bs \<noteq> [] \<and> ''by_country'' \<in> set bs)"
    by (cases boxes) (auto simp: by_country_def)
  have off: "\<not> by_country boxes"
    if "boxes = None \<or> boxes = Some [] \<or> (\<exists>bs. boxes = Some bs \<and> ''by_country'' \<notin> set bs)"
    using that by (auto simp: by_country_def)
  have agg: "timeline dat boxes [start, finish] =
          (case filter_window start finish (DataFrame dat) of
             Inl e \<Rightarrow> Inl e
           | Inr df \<Rightarrow> Inr \<lparr>tf_data = timeline_aggregate df, tf_title = ''Sales Over Time''\<rparr>)
      \<and> products facts boxes [start, finish] =
          (case products_aggregate (DataFrame (top_products_query facts start finish 5)) of
             Inl e \<Rightarrow> Inl e
           | Inr traces \<Rightarrow>
               Inr \<lparr>pf_data = traces, pf_title = ''Most Profitable Products'',
                    pf_yaxis_automargin = True, pf_barmode = ''stack''\<rparr>)"
    if "\<not> by_country boxes"
    using that by (simp add: timeline_def products_def fromtimestamp_def split: sum.splits)
  have split: "timeline dat boxes [start, finish] =
          (case filter_window start finish (DataFrame dat) of
             Inl e \<Rightarrow> Inl e
           | Inr df \<Rightarrow> Inr \<lparr>tf_data = timeline_by_country df, tf_title = ''Sales Over Time''\<rparr>)
      \<and> products facts boxes [start, finish] =
          (case products_by_country
                  (DataFrame (top_products_by_country_query facts start finish 3)) of
             Inl e \<Rightarrow> Inl e
           | Inr traces \<Rightarrow>
               Inr \<lparr>pf_data = traces, pf_title = ''Most Profitable Products'',
                    pf_yaxis_automargin = True, pf_barmode = ''stack''\<rparr>)"
    if "by_country boxes"
    using that by (simp add: timeline_def products_def fromtimestamp_def split: sum.splits)
  from flag off agg split show ?thesis by blast
qed

theorem by_country_checkbox_paths_witness:
  "(Some [''other''] = None \<or> Some [''other''] = Some []
      \<or> (\<exists>bs. Some [''other''] = Some bs \<and> ''by_country'' \<notin> set bs))
   \<and> timeline example_rows (Some [''other'']) [0, 100] =
          (case filter_window 0 100 (DataFrame example_rows) of
             Inl e \<Rightarrow> Inl e
           | Inr df \<Rightarrow> Inr \<lparr>tf_data = timeline_aggregate df, tf_title = ''Sales Over Time''\<rparr>)
   \<and> products example_facts (Some [''other'']) [0, 100] =
          (case products_aggregate (DataFrame (top_products_query example_facts 0 100 5)) of
             Inl e \<Rightarrow> Inl e
           | Inr traces \<Rightarrow>
               Inr \<lparr>pf_data = traces, pf_title = ''Most Profitable Products'',
                    pf_yaxis_automargin = True, pf_barmode = ''stack''\<rparr>)
   \<and> (\<exists>bs. Some [''other'', ''by_country''] = Some bs \<and> bs \<noteq> [] \<and> ''by_country'' \<in> set bs)
   \<and> timeline example_rows (Some [''other'', ''by_country'']) [0, 100] =
          (case filter_window 0 100 (DataFrame example_rows) of
             Inl e \<Rightarrow> Inl e
           | Inr df \<Rightarrow> Inr \<lparr>tf_data = timeline_by_country df, tf_title = ''Sales Over Time''\<rparr>)
   \<and> products example_facts (Some [''other'', ''by_country'']) [0, 100] =
          (case products_by_country
                  (DataFrame (top_products_by_country_query example_facts 0 100 3)) of
             Inl e \<Rightarrow> Inl e
           | Inr traces \<Rightarrow>
               Inr \<lparr>pf_data = traces, pf_title = ''Most Profitable Products'',
                    pf_yaxis_automargin = True, pf_barmode = ''stack''\<rparr>)"
proof -
  have off: "Some [''other''] = None \<or> Some [''other''] = Some []
      \<or> (\<exists>bs. Some [''other''] = Some bs \<and> ''by_country'' \<notin> set bs)"
    by simp
  have on: "\<exists>bs. Some [''other'', ''by_country''] = Some bs \<and> bs \<noteq> [] \<and> ''by_country'' \<in> set bs"
    by simp
  from by_country_checkbox_paths [of "Some [''other'']" example_rows 0 100 example_facts]
    by_country_checkbox_paths [of "Some [''other'', ''by_country'']" example_rows 0 100 example_facts]
    off on
  show ?thesis by blast
qed

lemma map_enumerate_snd: "map (\<lambda>p. g (snd p)) (enumerate n xs) = map g xs"
  by (induction xs arbitrary: n) auto

lemma map_enumerate_row: "map (\<lambda>(i, r). g r) (enumerate n xs) = map g xs"
  by (simp add: split_def map_enumerate_snd)

subsection \<open>The split timeline\<close>

text \<open>
  Claim C4, amended. With the country split, the timeline has one trace for each country
  among the filtered rows, named after it and holding the \<open>(date, total)\<close> pairs of that
  country's rows in the order of the rows; the traces appear in ascending order of the
  country names.
\<close>

theorem timeline_by_country_series_sorted:
  assumes "by_country boxes" and "filter_window start finish (DataFrame dat) = Inr df"
  shows "\<exists>traces.
           timeline dat boxes [start, finish] =
             Inr \<lparr>tf_data = traces, tf_title = ''Sales Over Time''\<rparr>
         \<and> map sc_name traces = map Some (sorted_list_of_set (ts_country ` snd ` set df))
         \<and> (\<forall>s \<in> set traces. \<forall>c. sc_name s = Some c \<longrightarrow>
               zip (sc_x s) (sc_y s) =
                 map (\<lambda>(i, r). (ts_dt r, ts_sales_amount r))
                     (filter (\<lambda>(i, r). ts_country r = c) df))"
proof -
  have run: "timeline dat boxes [start, finish] =
               Inr \<lparr>tf_data = timeline_by_country df, tf_title = ''Sales Over Time''\<rparr>"
    using assms by (rule timeline_split)
  have names: "map sc_name (timeline_by_country df) =
                 map Some (sorted_list_of_set (ts_country ` snd ` set df))"
    by (simp only: name_by_country groupby_keys)
  have points: "\<forall>s \<in> set (timeline_by_country df). \<forall>c. sc_name s = Some c \<longrightarrow>
               zip (sc_x s) (sc_y s) =
                 map (\<lambda>(i, r). (ts_dt r, ts_sales_amount r))
                     (filter (\<lambda>(i, r). ts_country r = c) df)"
    using points_by_country(1) by blast
  from run names points show ?thesis by blast
qed

theorem timeline_by_country_series_sorted_witness:
  "by_country (Some [''by_country''])
   \<and> filter_window 0 100 (DataFrame example_rows) = Inr (enumerate 0 example_rows)
   \<and> (\<exists>traces.
           timeline example_rows (Some [''by_country'']) [0, 100] =
             Inr \<lparr>tf_data = traces, tf_title = ''Sales Over Time''\<rparr>
         \<and> map sc_name traces =
             map Some (sorted_list_of_set (ts_country ` snd ` set (enumerate 0 example_rows)))
         \<and> (\<forall>s \<in> set traces. \<forall>c. sc_name s = Some c \<longrightarrow>
               zip (sc_x s) (sc_y s) =
                 map (\<lambda>(i, r). (ts_dt r, ts_sales_amount r))
                     (filter (\<lambda>(i, r). ts_country r = c) (enumerate 0 example_rows))))"
proof -
  have flag: "by_country (Some [''by_country''])" by code_simp
  have window: "filter_window 0 100 (DataFrame example_rows) = Inr (enumerate 0 example_rows)"
    by code_simp
  from timeline_by_country_series_sorted [OF flag window] flag window show ?thesis by blast
qed

text \<open>
  Claim C4 as stated fails on \<open>example_rows\<close>: the first row is of the USA and the
  second of France, so the order of first appearance is USA, France; the traces come as
  France, USA.
\<close>

theorem timeline_by_country_order_counterexample:
  "timeline example_rows (Some [''by_country'']) [0, 100] =
     Inr \<lparr>tf_data =
            [\<lparr>sc_x = [20], sc_y = [250], sc_ids = [RowIndex 1],
              sc_mode = ''markers'', sc_name = Some ''France''\<rparr>,
             \<lparr>sc_x = [10, 30], sc_y = [100, 70], sc_ids = [RowIndex 0, RowIndex 2],
              sc_mode = ''markers'', sc_name = Some ''USA''\<rparr>],
          tf_title = ''Sales Over Time''\<rparr>
   \<and> first_appearance (map ts_country example_rows) = [''USA'', ''France'']
   \<and> map sc_name (timeline_by_country (enumerate 0 example_rows)) \<noteq>
       map Some (first_appearance (map ts_country example_rows))"
  by code_simp

subsection \<open>The top products\<close>

text \<open>
  Claim C6. For every window and every limit \<open>n\<close>, the top-products statement returns
  at most \<open>n\<close> rows, in descending order of the summed sales amount. In particular
  without the country split, where the callback asks for \<open>n = 5\<close>: when the statement
  returns a row, the bar trace of \<^verbatim>\<open>products\<close> holds the amounts of its rows, at most
  five, in descending order.
\<close>

theorem top_products_at_most_n_sorted:
  "length (top_products_query facts start finish n) \<le> n
   \<and> sorted_wrt (\<lambda>a b. b \<le> a) (map tp_sales_amount (top_products_query facts start finish n))
   \<and> (\<not> by_country boxes \<and> top_products_query facts start finish 5 \<noteq> [] \<longrightarrow>
        (\<exists>b. products facts boxes [start, finish] =
                Inr \<lparr>pf_data = [b], pf_title = ''Most Profitable Products'',
                     pf_yaxis_automargin = True, pf_barmode = ''stack''\<rparr>
            \<and> bar_x b = map tp_sales_amount (top_products_query facts start finish 5)
            \<and> length (bar_x b) \<le> 5
            \<and> sorted_wrt (\<lambda>a b. b \<le> a) (bar_x b)))"
proof -
  have cb: "\<exists>b. products facts boxes [start, finish] =
                Inr \<lparr>pf_data = [b], pf_title = ''Most Profitable Products'',
                     pf_yaxis_automargin = True, pf_barmode = ''stack''\<rparr>
            \<and> bar_x b = map tp_sales_amount (top_products_query facts start finish 5)
            \<and> length (bar_x b) \<le> 5
            \<and> sorted_wrt (\<lambda>a b. b \<le> a) (bar_x b)"
    if off: "\<not> by_country boxes" and ne: "top_products_query facts start finish 5 \<noteq> []"
  proof -
    let ?q = "top_products_query facts start finish 5"
    let ?b = "\<lparr>bar_ids = map (\<lambda>(i, r). i) (enumerate 0 ?q),
                bar_x = map (\<lambda>(i, r). tp_sales_amount r) (enumerate 0 ?q),
                bar_y = map (\<lambda>(i, r). tp_product_name r) (enumerate 0 ?q),
                bar_orientation = ''h'', bar_name = None\<rparr>"
    have run: "products facts boxes [start, finish] =
                Inr \<lparr>pf_data = [?b], pf_title = ''Most Profitable Products'',
                     pf_yaxis_automargin = True, pf_barmode = ''stack''\<rparr>"
      using off ne
      by (simp add: products_def fromtimestamp_def products_aggregate_def DataFrame_nonempty)
    have "map (\<lambda>(i, r). tp_sales_amount r) (enumerate 0 ?q) = map tp_sales_amount ?q"
      by (rule map_enumerate_row)
    then have x: "bar_x ?b = map tp_sales_amount ?q" by simp
    have len: "length (bar_x ?b) \<le> 5"
      using top_products_query_limit [of facts start finish 5] by simp
    have srt: "sorted_wrt (\<lambda>a b. b \<le> a) (bar_x ?b)"
      using top_products_query_sorted [of facts start finish 5] by (simp only: x)
    from run x len srt show ?thesis by blast
  qed
  from top_products_query_limit top_products_query_sorted cb show ?thesis by blast
qed

theorem top_products_at_most_n_sorted_witness:
  "\<not> by_country None \<and> top_products_query example_facts 0 100 5 \<noteq> []
   \<and> top_products_query example_facts 0 100 1 =
        [\<lparr>tp_product_name = ''Car'', tp_sales_amount = 650\<rparr>]
   \<and> length (top_products_query example_facts 0 100 1) \<le> 1
   \<and> (\<exists>b. products example_facts None [0, 100] =
                Inr \<lparr>pf_data = [b], pf_title = ''Most Profitable Products'',
                     pf_yaxis_automargin = True, pf_barmode = ''stack''\<rparr>
            \<and> bar_x b = map tp_sales_amount (top_products_query example_facts 0 100 5)
            \<and> length (bar_x b) \<le> 5
            \<and> sorted_wrt (\<lambda>a b. b \<le> a) (bar_x b))"
proof -
  have flag: "\<not> by_country None" by code_simp
  have rows: "top_products_query example_facts 0 100 5 \<noteq> []" by code_simp
  have top: "top_products_query example_facts 0 100 1 =
        [\<lparr>tp_product_name = ''Car'', tp_sales_amount = 650\<rparr>]"
    by code_simp
  from top_products_at_most_n_sorted [of example_facts 0 100 1 None] flag rows top
  show ?thesis by blast
qed



subsection \<open>The traces of the products chart\<close>

text \<open>
  Claim C5, on the code. For a window without sales, here the days 60 to 70 over
  \<open>example_facts\<close>, the statement returns no row and \<^verbatim>\<open>products\<close> returns no chart:
  it raises \<^verbatim>\<open>AttributeError\<close> where the claim promises exactly one bar trace, and
  \<^verbatim>\<open>KeyError\<close> with the country split, where the claim promises one trace per
  product of the result, none here.
\<close>

theorem products_no_sales_raises:
  "top_products_query example_facts 60 70 5 = []
   \<and> products example_facts None [60, 70] = Inl (AttributeError ''sales_amount'')
   \<and> top_products_by_country_query example_facts 60 70 3 = []
   \<and> products example_facts (Some [''by_country'']) [60, 70] = Inl (KeyError ''product_name'')"
  by code_simp

text \<open>
  Whenever \<^verbatim>\<open>products\<close> returns a chart, the chart is as the claim says: one bar
  trace without the split, and with it one trace for each product name of the result, in
  ascending order of the names.
\<close>

lemma products_aggregate_one_trace:
  assumes "\<not> by_country boxes" and "products facts boxes [start, finish] = Inr fig"
  shows "length (pf_data fig) = 1"
  using assms
  by (auto simp: products_def fromtimestamp_def products_aggregate_def
      split: frame.splits sum.splits)

lemma products_by_country_traces:
  assumes "by_country boxes" and "products facts boxes [start, finish] = Inr fig"
  shows "map bar_name (pf_data fig) =
           map Some (sorted_list_of_set
             (pc_product_name ` set (top_products_by_country_query facts start finish 3)))"
proof -
  let ?q = "top_products_by_country_query facts start finish 3"
  from assms have ne: "?q \<noteq> []"
    by (auto simp: products_def fromtimestamp_def products_by_country_def DataFrame_def
        split: sum.splits)
  with assms have "pf_data fig =
      map (\<lambda>(product, d).
                      \<lparr>bar_ids = map (\<lambda>(i, r). i) d,
                       bar_x = map (\<lambda>(i, r). pc_sales_amount r) d,
                       bar_y = map (\<lambda>(i, r). pc_country r) d,
                       bar_orientation = ''h'',
                       bar_name = Some product\<rparr>)
                   (groupby pc_product_name (enumerate 0 ?q))"
    by (auto simp: products_def fromtimestamp_def products_by_country_def DataFrame_nonempty)
  then have "map bar_name (pf_data fig) =
               map Some (map fst (groupby pc_product_name (enumerate 0 ?q)))"
    by (simp add: split_def comp_def)
  moreover have "snd ` set (enumerate 0 ?q) = set ?q"
    by (metis map_snd_enumerate set_map)
  ultimately show ?thesis by (simp only: groupby_keys)
qed

end
